theory Spec2Isabelle
  imports Main "HOL-Library.Sublist"
begin

section \<open>Strings\<close>

text \<open>
  A JavaScript string is a sequence of UTF-16 code units; a code unit is modelled as a
  natural number. \<open>utf16\<close> writes an ASCII literal of the source as such a sequence.
\<close>

type_synonym js_string = "nat list"

definition utf16 :: "string \<Rightarrow> js_string" where
  "utf16 cs = map of_char cs"

text \<open>
  \<^verbatim>\<open>String.prototype.trim\<close> removes white space and line terminators from both ends:
  TAB, LF, VT, FF, CR, SP, NBSP, the Unicode space separators, LS, PS and the BOM.
\<close>

definition is_white_space :: "nat \<Rightarrow> bool" where
  "is_white_space c =
     (c = 0x09 \<or> c = 0x0A \<or> c = 0x0B \<or> c = 0x0C \<or> c = 0x0D \<or> c = 0x20 \<or> c = 0xA0
      \<or> c = 0x1680 \<or> (0x2000 \<le> c \<and> c \<le> 0x200A) \<or> c = 0x2028 \<or> c = 0x2029
      \<or> c = 0x202F \<or> c = 0x205F \<or> c = 0x3000 \<or> c = 0xFEFF)"

definition trim :: "js_string \<Rightarrow> js_string" where
  "trim s = rev (dropWhile is_white_space (rev (dropWhile is_white_space s)))"

text \<open>\<^verbatim>\<open>Array.prototype.join\<close> on an array of strings.\<close>

fun join :: "js_string \<Rightarrow> js_string list \<Rightarrow> js_string" where
  "join sep [] = []"
| "join sep [x] = x"
| "join sep (x # y # ys) = x @ sep @ join sep (y # ys)"

text \<open>\<^verbatim>\<open>String(n)\<close> for a non-negative integer: its decimal digits.\<close>

fun decimal :: "nat \<Rightarrow> js_string" where
  "decimal n = (if n < 10 then [48 + n] else decimal (n div 10) @ [48 + n mod 10])"

declare decimal.simps [simp del]

section \<open>The chat pane: data\<close>

text \<open>
  \<^verbatim>\<open>type ChatMessage = { id: string; role: "user" | "assistant" | "system"; content: string }\<close>
\<close>

datatype role = User | Assistant | System

record chat_message =
  msg_id :: js_string
  role :: role
  content :: js_string

text \<open>A selected file: its name and its bytes.\<close>

record upload_file =
  name :: js_string
  bytes :: "nat list"

text \<open>The notices of \<^verbatim>\<open>toast.error\<close> and \<^verbatim>\<open>toast.success\<close>.\<close>

datatype toast = Toast_error js_string | Toast_success js_string

text \<open>
  The state of \<^verbatim>\<open>ChatPane\<close>: one field for each \<^verbatim>\<open>useState\<close> hook, and the
  notices raised so far. \<^verbatim>\<open>undefined\<close> is \<open>None\<close>.
\<close>

record chat_pane =
  strategyId :: "js_string option"
  walletIds :: "js_string list option"
  files :: "upload_file list"
  messages :: "chat_message list"
  input :: js_string
  typing :: bool
  toasts :: "toast list"

text \<open>
  What \<^verbatim>\<open>await fetch(...)\<close> gives: the promise rejects (the request could not be
  made), or it resolves to a response with a status, the body as \<^verbatim>\<open>res.text()\<close> reads
  it and the body as \<^verbatim>\<open>res.json()\<close> reads it at the type the source asserts
  (\<open>None\<close> when \<^verbatim>\<open>res.json()\<close> rejects).
\<close>

datatype 'a fetch_result =
  Rejected
| Resolved (status: nat) (body_text: js_string) (body_json: "'a option")

text \<open>\<^verbatim>\<open>res.ok\<close>: the status is in the range 200 to 299.\<close>

definition ok :: "nat \<Rightarrow> bool" where
  "ok st = (200 \<le> st \<and> st \<le> 299)"

text \<open>
  The JSON body \<^verbatim>\<open>{ messages, strategyId, walletIds, message: text }\<close> that
  \<^verbatim>\<open>sendMessage\<close> posts to \<^verbatim>\<open>/api/chat\<close>. \<^verbatim>\<open>JSON.stringify\<close> leaves out a
  field that is \<^verbatim>\<open>undefined\<close>, so each field is optional for the receiver.
\<close>

record chat_body =
  req_messages :: "chat_message list option"
  req_strategyId :: "js_string option"
  req_walletIds :: "js_string list option"
  req_message :: "js_string option"

section \<open>The chat pane: \<^verbatim>\<open>sendMessage\<close>\<close>

text \<open>
  The handler runs in two parts. \<open>sendMessage_begin\<close> is everything up to the
  \<^verbatim>\<open>await fetch\<close>: it returns the state after the three state updates and the body it
  posts, or the unchanged state and no request when the trimmed input is empty. The
  identifier \<open>uuid\<close> is the value of \<^verbatim>\<open>crypto.randomUUID()\<close>. The variable
  \<^verbatim>\<open>messages\<close> in the body is the one the handler closed over: the log of the
  state the handler was started in.
\<close>

definition sendMessage_begin :: "chat_pane \<Rightarrow> js_string \<Rightarrow> chat_pane \<times> chat_body option" where
  "sendMessage_begin s uuid =
     (let text = trim (input s) in
      if text = [] then (s, None)
      else
        let userMsg = \<lparr>msg_id = uuid, role = User, content = text\<rparr> in
        (s\<lparr>messages := messages s @ [userMsg], input := [], typing := True\<rparr>,
         Some \<lparr>req_messages = Some (messages s), req_strategyId = strategyId s,
               req_walletIds = walletIds s, req_message = Some text\<rparr>))"

text \<open>
  \<open>sendMessage_settle\<close> is the rest, run when the fetch has settled: the \<^verbatim>\<open>try\<close>
  block appends \<^verbatim>\<open>data.message\<close>; a rejected fetch, a status that is not ok and a
  body that \<^verbatim>\<open>res.json()\<close> rejects all end in the \<^verbatim>\<open>catch\<close> block; the
  \<^verbatim>\<open>finally\<close> block runs in every case. The updates are functional
  (\<^verbatim>\<open>prev => [...prev, m]\<close>), so they apply to the state of that moment.
\<close>

definition sendMessage_catch :: "chat_pane \<Rightarrow> chat_pane" where
  "sendMessage_catch s = s\<lparr>toasts := toasts s @ [Toast_error (utf16 ''Chat error'')]\<rparr>"

definition sendMessage_finally :: "chat_pane \<Rightarrow> chat_pane" where
  "sendMessage_finally s = s\<lparr>typing := False, files := []\<rparr>"

definition sendMessage_settle :: "chat_pane \<Rightarrow> chat_message fetch_result \<Rightarrow> chat_pane" where
  "sendMessage_settle s res =
     sendMessage_finally
       (case res of
          Rejected \<Rightarrow> sendMessage_catch s
        | Resolved st txt js \<Rightarrow>
            if \<not> ok st then sendMessage_catch s
            else (case js of
                    None \<Rightarrow> sendMessage_catch s
                  | Some m \<Rightarrow> s\<lparr>messages := messages s @ [m]\<rparr>))"

text \<open>
  The whole handler with nothing in between: \<open>res\<close> is what the fetch gives when
  the handler gets that far.
\<close>

definition sendMessage :: "chat_pane \<Rightarrow> js_string \<Rightarrow> chat_message fetch_result \<Rightarrow> chat_pane" where
  "sendMessage s uuid res =
     (case sendMessage_begin s uuid of
        (s1, None) \<Rightarrow> s1
      | (s1, Some body) \<Rightarrow> sendMessage_settle s1 res)"

section \<open>The chat pane: \<^verbatim>\<open>onFilesChanged\<close>\<close>

text \<open>How an asynchronous handler ends: it returns, or an exception leaves it uncaught.\<close>

datatype exit = Returned | Threw

definition attachment_line :: "js_string \<Rightarrow> js_string" where
  "attachment_line u = utf16 ''Attachment: '' @ u"

definition newline :: js_string where
  "newline = [10]"

text \<open>
  Up to the \<^verbatim>\<open>await fetch("/api/files", ...)\<close>: an empty selection returns at once;
  otherwise the selection is stored in \<^verbatim>\<open>files\<close> and posted as one form.
\<close>

definition onFilesChanged_begin ::
  "chat_pane \<Rightarrow> upload_file list \<Rightarrow> chat_pane \<times> upload_file list option" where
  "onFilesChanged_begin s picked =
     (if picked = [] then (s, None)
      else (s\<lparr>files := picked\<rparr>, Some picked))"

text \<open>
  After the fetch has settled. The handler has no \<^verbatim>\<open>try\<close>: a rejected fetch and a
  body that \<^verbatim>\<open>res.json()\<close> rejects leave the handler as uncaught exceptions.
\<close>

definition onFilesChanged_settle ::
  "chat_pane \<Rightarrow> js_string list fetch_result \<Rightarrow> chat_pane \<times> exit" where
  "onFilesChanged_settle s res =
     (case res of
        Rejected \<Rightarrow> (s, Threw)
      | Resolved st txt js \<Rightarrow>
          if \<not> ok st
          then (s\<lparr>toasts := toasts s @ [Toast_error (utf16 ''Upload failed'')]\<rparr>, Returned)
          else (case js of
                  None \<Rightarrow> (s, Threw)
                | Some urls \<Rightarrow>
                    if urls \<noteq> [] then
                      let joined = join newline (map attachment_line urls) in
                      (s\<lparr>input := (if input s \<noteq> [] then input s @ newline @ newline @ joined
                                     else joined),
                         toasts := toasts s @ [Toast_success (utf16 ''Files attached'')]\<rparr>,
                       Returned)
                    else (s, Returned)))"

definition onFilesChanged ::
  "chat_pane \<Rightarrow> upload_file list \<Rightarrow> js_string list fetch_result \<Rightarrow> chat_pane \<times> exit" where
  "onFilesChanged s picked res =
     (case onFilesChanged_begin s picked of
        (s1, None) \<Rightarrow> (s1, Returned)
      | (s1, Some form) \<Rightarrow> onFilesChanged_settle s1 res)"

section \<open>The events of the pane\<close>

text \<open>
  The pane changes its state only in its handlers: the two parts of \<^verbatim>\<open>sendMessage\<close>,
  the two parts of \<^verbatim>\<open>onFilesChanged\<close>, and \<^verbatim>\<open>setInput\<close> from the text field and
  the emoji menu.
\<close>

datatype event =
  Submitted js_string
| Chat_settled "chat_message fetch_result"
| Files_picked "upload_file list"
| Upload_settled "js_string list fetch_result"
| Input_changed js_string

fun handle :: "chat_pane \<Rightarrow> event \<Rightarrow> chat_pane" where
  "handle s (Submitted uuid) = fst (sendMessage_begin s uuid)"
| "handle s (Chat_settled res) = sendMessage_settle s res"
| "handle s (Files_picked picked) = fst (onFilesChanged_begin s picked)"
| "handle s (Upload_settled res) = fst (onFilesChanged_settle s res)"
| "handle s (Input_changed v) = s\<lparr>input := v\<rparr>"

section \<open>The route \<^verbatim>\<open>/api/files\<close>\<close>

datatype error =
  Mkdir_failed | Write_failed | Fetch_failed | Json_failed | Backend_error nat
| RangeError | TypeError

text \<open>A response a route answers with: its JSON body and its status.\<close>

datatype 'a next_response = NextResponse (payload: 'a) (res_status: nat)

text \<open>
  \<^verbatim>\<open>NextResponse.json(body, { status })\<close> builds a response with a body; the status is
  200 when none is given. The constructor of the platform throws a \<^verbatim>\<open>RangeError\<close> for
  a status outside 200 to 599, and a \<^verbatim>\<open>TypeError\<close> for a body together with a
  null-body status (101, 103, 204, 205, 304).
\<close>

definition null_body_status :: "nat \<Rightarrow> bool" where
  "null_body_status st = (st = 101 \<or> st = 103 \<or> st = 204 \<or> st = 205 \<or> st = 304)"

definition NextResponse_json :: "'a \<Rightarrow> nat \<Rightarrow> error + 'a next_response" where
  "NextResponse_json body st =
     (if st < 200 \<or> 599 < st then Inl RangeError
      else if null_body_status st then Inl TypeError
      else Inr (NextResponse body st))"

text \<open>
  What the handler observes of its environment: whether \<^verbatim>\<open>fs.mkdir\<close> succeeds, and
  in the iteration with index \<open>i\<close> the value of \<^verbatim>\<open>Date.now()\<close> and whether
  \<^verbatim>\<open>fs.writeFile\<close> succeeds.
\<close>

record upload_env =
  mkdir_ok :: bool
  now :: "nat \<Rightarrow> nat"
  write_ok :: "nat \<Rightarrow> bool"

text \<open>The characters the expression \<^verbatim>\<open>/[^a-zA-Z0-9.\-_]/g\<close> leaves as they are.\<close>

definition safe_char :: "nat \<Rightarrow> bool" where
  "safe_char c =
     ((97 \<le> c \<and> c \<le> 122) \<or> (65 \<le> c \<and> c \<le> 90) \<or> (48 \<le> c \<and> c \<le> 57)
      \<or> c = 46 \<or> c = 45 \<or> c = 95)"

definition sanitize :: "js_string \<Rightarrow> js_string" where
  "sanitize nm = map (\<lambda>c. if safe_char c then c else 95) nm"

definition safeName :: "nat \<Rightarrow> upload_file \<Rightarrow> js_string" where
  "safeName t f = decimal t @ utf16 ''-'' @ sanitize (name f)"

text \<open>The loop over the files; a failed write throws and ends the handler.\<close>

fun upload_loop ::
  "upload_env \<Rightarrow> nat \<Rightarrow> upload_file list \<Rightarrow> js_string list \<Rightarrow> error + js_string list" where
  "upload_loop env i [] urls = Inr urls"
| "upload_loop env i (f # fs) urls =
     (let safe = safeName (now env i) f in
      if write_ok env i
      then upload_loop env (Suc i) fs (urls @ [utf16 ''/uploads/'' @ safe])
      else Inl Write_failed)"

definition POST_files :: "upload_env \<Rightarrow> upload_file list \<Rightarrow> error + js_string list next_response" where
  "POST_files env fs =
     (if \<not> mkdir_ok env then Inl Mkdir_failed
      else (case upload_loop env 0 fs [] of
              Inl e \<Rightarrow> Inl e
            | Inr urls \<Rightarrow> NextResponse_json urls 200))"

section \<open>The route \<^verbatim>\<open>/api/chat\<close>\<close>

text \<open>What the route posts to the agent backend, and what the backend answers.\<close>

record agent_request =
  message :: js_string
  strategy_id :: "js_string option"
  wallet_ids :: "js_string list option"

record agent_turn =
  message_id :: js_string
  agent_response :: js_string

text \<open>The two bodies the route answers with: \<^verbatim>\<open>{ message }\<close> and \<^verbatim>\<open>{ error }\<close>.\<close>

datatype relay_payload = Message_payload chat_message | Error_payload js_string

text \<open>
  The route returns the requests it has sent to the backend, in order, and its answer
  (or the exception that leaves it: from the fetch, from \<^verbatim>\<open>res.json()\<close>, or from
  building the response). \<open>res\<close> is what the fetch to the backend gives.
\<close>

definition POST_chat ::
  "chat_body \<Rightarrow> agent_turn fetch_result
     \<Rightarrow> agent_request list \<times> (error + relay_payload next_response)" where
  "POST_chat body res =
     (let msgs = (case req_messages body of None \<Rightarrow> [] | Some ms \<Rightarrow> ms);
          strategyId = req_strategyId body;
          walletIds = req_walletIds body;
          lastUser = find (\<lambda>m. role m = User) (rev msgs);
          userText = (case lastUser of None \<Rightarrow> [] | Some m \<Rightarrow> content m);
          req = \<lparr>message = userText, strategy_id = strategyId, wallet_ids = walletIds\<rparr>
      in ([req],
          (case res of
             Rejected \<Rightarrow> Inl Fetch_failed
           | Resolved st errorText js \<Rightarrow>
               if \<not> ok st
               then NextResponse_json
                      (Error_payload (if errorText \<noteq> [] then errorText
                                      else utf16 ''Chat backend error''))
                      st
               else (case js of
                       None \<Rightarrow> Inl Json_failed
                     | Some data \<Rightarrow>
                         NextResponse_json
                           (Message_payload
                              \<lparr>msg_id = message_id data, role = Assistant,
                               content = agent_response data\<rparr>)
                           200))))"

section \<open>The history loader\<close>

text \<open>
  \<^verbatim>\<open>URLSearchParams\<close> is a list of name-value pairs. \<^verbatim>\<open>set\<close> replaces the value of the
  first pair with that name and removes the other pairs with it, or appends a new pair.
\<close>

type_synonym url_search_params = "(js_string \<times> js_string) list"

fun params_set :: "url_search_params \<Rightarrow> js_string \<Rightarrow> js_string \<Rightarrow> url_search_params" where
  "params_set [] k v = [(k, v)]"
| "params_set ((k', v') # ps) k v =
     (if k' = k then (k, v) # filter (\<lambda>p. fst p \<noteq> k) ps
      else (k', v') # params_set ps k v)"

text \<open>
  \<^verbatim>\<open>toString\<close> is the \<^verbatim>\<open>application/x-www-form-urlencoded\<close> serialiser: names and values
  are read as code points (a surrogate without its partner is U+FFFD), encoded in UTF-8
  and written byte by byte: a space as \<^verbatim>\<open>+\<close>, an ASCII letter or digit and
  \<^verbatim>\<open>* - . _\<close> as they are, any other byte as \<^verbatim>\<open>%\<close> and two upper-case hexadecimal
  digits. The pairs are \<^verbatim>\<open>name=value\<close>, joined by \<^verbatim>\<open>&\<close>.
\<close>

fun code_points :: "js_string \<Rightarrow> nat list" where
  "code_points [] = []"
| "code_points [c] = [if 0xD800 \<le> c \<and> c \<le> 0xDFFF then 0xFFFD else c]"
| "code_points (c # d # cs) =
     (if 0xD800 \<le> c \<and> c \<le> 0xDBFF \<and> 0xDC00 \<le> d \<and> d \<le> 0xDFFF
      then (0x10000 + (c - 0xD800) * 0x400 + (d - 0xDC00)) # code_points cs
      else (if 0xD800 \<le> c \<and> c \<le> 0xDFFF then 0xFFFD else c) # code_points (d # cs))"

definition utf8 :: "nat \<Rightarrow> nat list" where
  "utf8 cp =
     (if cp < 0x80 then [cp]
      else if cp < 0x800 then [0xC0 + cp div 0x40, 0x80 + cp mod 0x40]
      else if cp < 0x10000
        then [0xE0 + cp div 0x1000, 0x80 + (cp div 0x40) mod 0x40, 0x80 + cp mod 0x40]
      else [0xF0 + cp div 0x40000, 0x80 + (cp div 0x1000) mod 0x40,
            0x80 + (cp div 0x40) mod 0x40, 0x80 + cp mod 0x40])"

definition hex_digit :: "nat \<Rightarrow> nat" where
  "hex_digit d = (if d < 10 then 48 + d else 55 + d)"

definition form_byte :: "nat \<Rightarrow> js_string" where
  "form_byte b =
     (if b = 0x20 then [43]
      else if (97 \<le> b \<and> b \<le> 122) \<or> (65 \<le> b \<and> b \<le> 90) \<or> (48 \<le> b \<and> b \<le> 57)
              \<or> b = 42 \<or> b = 45 \<or> b = 46 \<or> b = 95
        then [b]
      else [37, hex_digit (b div 16), hex_digit (b mod 16)])"

definition form_encode :: "js_string \<Rightarrow> js_string" where
  "form_encode v = concat (map form_byte (concat (map utf8 (code_points v))))"

definition params_toString :: "url_search_params \<Rightarrow> js_string" where
  "params_toString ps =
     join (utf16 ''&'') (map (\<lambda>(k, v). form_encode k @ utf16 ''='' @ form_encode v) ps)"

text \<open>
  \<^verbatim>\<open>String(limit)\<close>. The limit is an integer (below \<open>10\<^sup>2\<^sup>1\<close> in magnitude, where
  JavaScript prints a number that is an integer as its decimal numeral).
\<close>

definition String_int :: "int \<Rightarrow> js_string" where
  "String_int n = (if n < 0 then utf16 ''-'' @ decimal (nat (- n)) else decimal (nat n))"

text \<open>
  \<^verbatim>\<open>loadChatHistory(strategyId?: string, limit = 50)\<close>: an argument that is not supplied
  is \<open>None\<close>. The parameters it builds and the path it asks \<^verbatim>\<open>backend\<close> for.
\<close>

definition loadChatHistory_params :: "js_string option \<Rightarrow> int option \<Rightarrow> url_search_params" where
  "loadChatHistory_params strategyId_arg limit_arg =
     (let limit = (case limit_arg of None \<Rightarrow> 50 | Some l \<Rightarrow> l);
          params = [];
          params = (case strategyId_arg of
                      None \<Rightarrow> params
                    | Some sid \<Rightarrow>
                        if sid \<noteq> [] then params_set params (utf16 ''strategy_id'') sid
                        else params)
      in params_set params (utf16 ''limit'') (String_int limit))"

definition loadChatHistory_path :: "js_string option \<Rightarrow> int option \<Rightarrow> js_string" where
  "loadChatHistory_path strategyId_arg limit_arg =
     utf16 ''/api/chat/history?'' @ params_toString (loadChatHistory_params strategyId_arg limit_arg)"

text \<open>
  \<^verbatim>\<open>backend<T>(path)\<close> fetches \<^verbatim>\<open>BACKEND_URL\<close> followed by the path, throws when the
  status is not ok and returns the parsed body. It is modelled with the URL it fetches
  and \<open>res\<close>, what that fetch gives.
\<close>

definition backend :: "js_string \<Rightarrow> js_string \<Rightarrow> 'a fetch_result \<Rightarrow> js_string \<times> (error + 'a)" where
  "backend BACKEND_URL path res =
     (BACKEND_URL @ path,
      (case res of
         Rejected \<Rightarrow> Inl Fetch_failed
       | Resolved st txt js \<Rightarrow>
           if \<not> ok st then Inl (Backend_error st)
           else (case js of None \<Rightarrow> Inl Json_failed | Some v \<Rightarrow> Inr v)))"

definition loadChatHistory ::
  "js_string \<Rightarrow> js_string option \<Rightarrow> int option \<Rightarrow> 'a fetch_result \<Rightarrow> js_string \<times> (error + 'a)" where
  "loadChatHistory BACKEND_URL strategyId_arg limit_arg res =
     backend BACKEND_URL (loadChatHistory_path strategyId_arg limit_arg) res"

section \<open>Initial state and failure\<close>

text \<open>The initial values of the \<^verbatim>\<open>useState\<close> hooks of \<^verbatim>\<open>ChatPane\<close>.\<close>

definition ChatPane_initial :: chat_pane where
  "ChatPane_initial =
     \<lparr>strategyId = None, walletIds = None, files = [], messages = [], input = [],
      typing = False, toasts = []\<rparr>"

text \<open>
  The two outcomes of a fetch that the handlers take as its failure: the promise rejects,
  or the response is not ok.
\<close>

definition fetch_failed :: "'a fetch_result \<Rightarrow> bool" where
  "fetch_failed res = (case res of Rejected \<Rightarrow> True | Resolved st txt js \<Rightarrow> \<not> ok st)"

section \<open>Submitting\<close>

text \<open>
  C8. When the input is empty after trimming, submitting changes nothing: the state after
  the handler is the state before it (log, input buffer, typing flag, attachment queue
  and notices), and no request is posted; the whole handler returns the same state
  whatever the network would have answered.
\<close>

theorem sendMessage_blank_noop:
  assumes "trim (input s) = []"
  shows "sendMessage_begin s uuid = (s, None) \<and> sendMessage s uuid res = s"
  using assms by (simp add: sendMessage_begin_def sendMessage_def)

theorem sendMessage_blank_noop_witness:
  "trim (input (ChatPane_initial\<lparr>input := utf16 ''  ''\<rparr>)) = []
   \<and> sendMessage_begin (ChatPane_initial\<lparr>input := utf16 ''  ''\<rparr>) (utf16 ''u1'')
       = (ChatPane_initial\<lparr>input := utf16 ''  ''\<rparr>, None)
   \<and> sendMessage (ChatPane_initial\<lparr>input := utf16 ''  ''\<rparr>) (utf16 ''u1'') Rejected
       = ChatPane_initial\<lparr>input := utf16 ''  ''\<rparr>"
proof -
  have blank: "trim (input (ChatPane_initial\<lparr>input := utf16 ''  ''\<rparr>)) = []"
    by (simp add: trim_def utf16_def is_white_space_def)
  show ?thesis
    using blank sendMessage_blank_noop [OF blank, of "utf16 ''u1''" Rejected] by simp
qed

lemma trim_hi: "trim (utf16 '' hi '') = utf16 ''hi''"
  by (simp add: trim_def utf16_def is_white_space_def)

text \<open>
  C3. When the trimmed input is not empty, the part of the handler that runs before the
  fetch appends exactly one message to the log, with role user, the generated identifier
  and the trimmed input as its content; it clears the input buffer and sets the typing
  flag. Nothing else of the state changes, and the response is not yet an argument.
\<close>

theorem sendMessage_optimistic_append:
  assumes "trim (input s) \<noteq> []"
  shows "fst (sendMessage_begin s uuid)
           = s\<lparr>messages := messages s @ [\<lparr>msg_id = uuid, role = User, content = trim (input s)\<rparr>],
               input := [], typing := True\<rparr>
         \<and> length (messages (fst (sendMessage_begin s uuid))) = Suc (length (messages s))
         \<and> input (fst (sendMessage_begin s uuid)) = []
         \<and> typing (fst (sendMessage_begin s uuid))"
  using assms by (simp add: sendMessage_begin_def Let_def)

theorem sendMessage_optimistic_append_witness:
  "trim (input (ChatPane_initial\<lparr>input := utf16 '' hi ''\<rparr>)) \<noteq> []
   \<and> messages (fst (sendMessage_begin (ChatPane_initial\<lparr>input := utf16 '' hi ''\<rparr>) (utf16 ''u1'')))
       = [\<lparr>msg_id = utf16 ''u1'', role = User, content = utf16 ''hi''\<rparr>]
   \<and> input (fst (sendMessage_begin (ChatPane_initial\<lparr>input := utf16 '' hi ''\<rparr>) (utf16 ''u1''))) = []
   \<and> typing (fst (sendMessage_begin (ChatPane_initial\<lparr>input := utf16 '' hi ''\<rparr>) (utf16 ''u1'')))"
proof -
  have nonblank: "trim (input (ChatPane_initial\<lparr>input := utf16 '' hi ''\<rparr>)) \<noteq> []"
    by (simp add: trim_hi) (simp add: utf16_def)
  show ?thesis
    using nonblank sendMessage_optimistic_append [OF nonblank, of "utf16 ''u1''"]
    by (simp add: trim_hi ChatPane_initial_def)
qed

lemma sendMessage_split:
  "sendMessage s uuid res =
     (if trim (input s) = [] then s
      else sendMessage_settle (fst (sendMessage_begin s uuid)) res)"
  by (simp add: sendMessage_def sendMessage_begin_def Let_def)

lemma onFilesChanged_split:
  "onFilesChanged s picked res =
     (if picked = [] then (s, Returned)
      else onFilesChanged_settle (s\<lparr>files := picked\<rparr>) res)"
  by (simp add: onFilesChanged_def onFilesChanged_begin_def)

text \<open>
  C2. When the trimmed input is not empty, the body posted to the relay carries as
  \<^verbatim>\<open>messages\<close> the log of the state the handler started in, and the submitted text
  only in \<^verbatim>\<open>message\<close>; the log after the optimistic append is that list followed by
  the new user message, and when the generated identifier is not already used in the
  log, the new user message is not an element of the posted list.
\<close>

theorem sendMessage_posts_prior_log:
  assumes "trim (input s) \<noteq> []"
  shows "snd (sendMessage_begin s uuid)
           = Some \<lparr>req_messages = Some (messages s), req_strategyId = strategyId s,
                   req_walletIds = walletIds s, req_message = Some (trim (input s))\<rparr>
         \<and> messages (fst (sendMessage_begin s uuid))
           = messages s @ [\<lparr>msg_id = uuid, role = User, content = trim (input s)\<rparr>]
         \<and> (case snd (sendMessage_begin s uuid) of
              None \<Rightarrow> False
            | Some body \<Rightarrow>
                (case req_messages body of
                   None \<Rightarrow> False
                 | Some posted \<Rightarrow>
                     posted = messages s
                     \<and> (uuid \<notin> set (map msg_id (messages s))
                          \<longrightarrow> \<lparr>msg_id = uuid, role = User, content = trim (input s)\<rparr>
                                \<notin> set posted)))"
  using assms by (force simp add: sendMessage_begin_def Let_def)

theorem sendMessage_posts_prior_log_witness:
  "trim (input (ChatPane_initial\<lparr>input := utf16 '' hi ''\<rparr>)) \<noteq> []
   \<and> utf16 ''u1'' \<notin> set (map msg_id (messages (ChatPane_initial\<lparr>input := utf16 '' hi ''\<rparr>)))
   \<and> snd (sendMessage_begin (ChatPane_initial\<lparr>input := utf16 '' hi ''\<rparr>) (utf16 ''u1''))
       = Some \<lparr>req_messages = Some [], req_strategyId = None, req_walletIds = None,
               req_message = Some (utf16 ''hi'')\<rparr>
   \<and> messages (fst (sendMessage_begin (ChatPane_initial\<lparr>input := utf16 '' hi ''\<rparr>) (utf16 ''u1'')))
       = [\<lparr>msg_id = utf16 ''u1'', role = User, content = utf16 ''hi''\<rparr>]"
proof -
  have nonblank: "trim (input (ChatPane_initial\<lparr>input := utf16 '' hi ''\<rparr>)) \<noteq> []"
    by (simp add: trim_hi) (simp add: utf16_def)
  have fresh: "utf16 ''u1'' \<notin> set (map msg_id (messages (ChatPane_initial\<lparr>input := utf16 '' hi ''\<rparr>)))"
    by (simp add: ChatPane_initial_def)
  show ?thesis
    using nonblank fresh sendMessage_posts_prior_log [OF nonblank, of "utf16 ''u1''"]
    by (simp add: trim_hi ChatPane_initial_def)
qed

text \<open>
  C5. When the trimmed input is not empty and the fetch to the relay fails (it rejects,
  or the status is not ok), the log after the handler is the log before it followed by
  the user message alone: its length has grown by exactly one, its last message has role
  user, the typing flag is false again, and the notice of the failure has been raised.
  The second part of the handler, run on any state, leaves the log as it is on failure.
\<close>

theorem sendMessage_failure:
  assumes "trim (input s) \<noteq> []" and "fetch_failed res"
  shows "messages (sendMessage s uuid res)
           = messages s @ [\<lparr>msg_id = uuid, role = User, content = trim (input s)\<rparr>]
         \<and> length (messages (sendMessage s uuid res)) = length (messages s) + 1
         \<and> \<not> typing (sendMessage s uuid res)
         \<and> toasts (sendMessage s uuid res) = toasts s @ [Toast_error (utf16 ''Chat error'')]
         \<and> messages (sendMessage_settle s1 res) = messages s1
         \<and> \<not> typing (sendMessage_settle s1 res)"
  using assms
  by (cases res)
     (simp_all add: sendMessage_def sendMessage_begin_def sendMessage_settle_def
        sendMessage_catch_def sendMessage_finally_def fetch_failed_def Let_def)

theorem sendMessage_failure_witness:
  "trim (input (ChatPane_initial\<lparr>input := utf16 '' hi ''\<rparr>)) \<noteq> []
   \<and> fetch_failed (Resolved 500 (utf16 ''LLM timeout'') (None :: chat_message option))
   \<and> messages (sendMessage (ChatPane_initial\<lparr>input := utf16 '' hi ''\<rparr>) (utf16 ''u1'')
                 (Resolved 500 (utf16 ''LLM timeout'') None))
       = [\<lparr>msg_id = utf16 ''u1'', role = User, content = utf16 ''hi''\<rparr>]
   \<and> \<not> typing (sendMessage (ChatPane_initial\<lparr>input := utf16 '' hi ''\<rparr>) (utf16 ''u1'')
                  (Resolved 500 (utf16 ''LLM timeout'') None))"
proof -
  have nonblank: "trim (input (ChatPane_initial\<lparr>input := utf16 '' hi ''\<rparr>)) \<noteq> []"
    by (simp add: trim_hi) (simp add: utf16_def)
  have failed: "fetch_failed (Resolved 500 (utf16 ''LLM timeout'') (None :: chat_message option))"
    by (simp add: fetch_failed_def ok_def)
  show ?thesis
    using nonblank failed
      sendMessage_failure [OF nonblank failed, of "utf16 ''u1''" ChatPane_initial]
    by (simp add: trim_hi ChatPane_initial_def)
qed

text \<open>
  C10. The log is append-only. Each handler of the pane, on any state and with any
  outcome of its fetch, leaves the log it found as a prefix of the log it leaves: the
  whole \<^verbatim>\<open>sendMessage\<close>, each of its two parts, and \<^verbatim>\<open>onFilesChanged\<close>, which does
  not change the log at all. So does every sequence of events of the pane.
\<close>

theorem log_append_only:
  "prefix (messages s) (messages (sendMessage s uuid res))
   \<and> prefix (messages s) (messages (fst (sendMessage_begin s uuid)))
   \<and> prefix (messages s) (messages (sendMessage_settle s res))
   \<and> messages (fst (onFilesChanged s picked ures)) = messages s
   \<and> messages (fst (onFilesChanged_begin s picked)) = messages s
   \<and> messages (fst (onFilesChanged_settle s ures)) = messages s
   \<and> prefix (messages s) (messages (foldl handle s evs))"
proof -
  have first: "prefix (messages t) (messages (fst (sendMessage_begin t u)))" for t u
    by (simp add: sendMessage_begin_def Let_def)
  have second: "prefix (messages t) (messages (sendMessage_settle t r))" for t r
    by (cases r)
       (simp_all add: sendMessage_settle_def sendMessage_catch_def sendMessage_finally_def
          split: option.split)
  have fbegin: "messages (fst (onFilesChanged_begin t p)) = messages t" for t p
    by (simp add: onFilesChanged_begin_def)
  have fsettle: "messages (fst (onFilesChanged_settle t r)) = messages t" for t r
    by (cases r) (simp_all add: onFilesChanged_settle_def Let_def split: option.split)
  have whole: "prefix (messages s) (messages (sendMessage s uuid res))"
  proof (cases "trim (input s) = []")
    case True
    then show ?thesis by (simp add: sendMessage_split)
  next
    case False
    then have "sendMessage s uuid res = sendMessage_settle (fst (sendMessage_begin s uuid)) res"
      by (simp add: sendMessage_split)
    then show ?thesis
      using first [of s uuid] second [of "fst (sendMessage_begin s uuid)" res]
      by (metis prefix_order.trans)
  qed
  have fwhole: "messages (fst (onFilesChanged s picked ures)) = messages s"
    by (simp add: onFilesChanged_split fsettle)
  have step: "prefix (messages t) (messages (handle t ev))" for t ev
    by (cases ev) (simp_all add: first second fbegin fsettle)
  have run: "prefix (messages t) (messages (foldl handle t es))" for t es
  proof (induction es arbitrary: t)
    case Nil
    show ?case by simp
  next
    case (Cons e es)
    have "prefix (messages t) (messages (handle t e))" by (rule step)
    also have "prefix (messages (handle t e)) (messages (foldl handle (handle t e) es))"
      by (rule Cons.IH)
    finally show ?case by simp
  qed
  show ?thesis
    using whole first second fwhole fbegin fsettle run by blast
qed

section \<open>Attachments\<close>

text \<open>
  C4, as the specification states it, asks for an empty attachment queue after a failed
  upload. The handler stores the selection in the queue before it posts it and has no
  later update of the queue: after an upload answered with status 500 the queue still
  holds the selected file.
\<close>

theorem upload_failure_keeps_queue:
  "fetch_failed (Resolved 500 [] (None :: js_string list option))
   \<and> files (fst (onFilesChanged_settle
                   (fst (onFilesChanged_begin ChatPane_initial
                           [\<lparr>name = utf16 ''a.png'', bytes = []\<rparr>]))
                   (Resolved 500 [] None)))
       = [\<lparr>name = utf16 ''a.png'', bytes = []\<rparr>]
   \<and> files (fst (onFilesChanged ChatPane_initial [\<lparr>name = utf16 ''a.png'', bytes = []\<rparr>]
                   (Resolved 500 [] None)))
       \<noteq> []"
  by (simp add: fetch_failed_def ok_def onFilesChanged_split onFilesChanged_begin_def
        onFilesChanged_settle_def)

text \<open>
  C4, amended. For a selection that is not empty and an upload answered with a status
  that is not ok, the handler returns with exactly one more notice, the error notice
  \<open>Upload failed\<close>, the input buffer unchanged, and the attachment queue holding the
  selected files. When the fetch itself rejects, the input buffer is unchanged and the
  queue holds the selected files as well.
\<close>

theorem upload_failure:
  assumes "picked \<noteq> []" and "\<not> ok st"
  shows "onFilesChanged s picked (Resolved st txt js)
           = (s\<lparr>files := picked,
                toasts := toasts s @ [Toast_error (utf16 ''Upload failed'')]\<rparr>, Returned)
         \<and> input (fst (onFilesChanged s picked (Resolved st txt js))) = input s
         \<and> files (fst (onFilesChanged s picked (Resolved st txt js))) = picked
         \<and> input (fst (onFilesChanged s picked Rejected)) = input s
         \<and> files (fst (onFilesChanged s picked Rejected)) = picked"
  using assms by (simp add: onFilesChanged_split onFilesChanged_settle_def)

theorem upload_failure_witness:
  "[\<lparr>name = utf16 ''a.png'', bytes = []\<rparr>] \<noteq> [] \<and> \<not> ok 500
   \<and> onFilesChanged (ChatPane_initial\<lparr>input := utf16 ''hi''\<rparr>)
        [\<lparr>name = utf16 ''a.png'', bytes = []\<rparr>] (Resolved 500 [] None)
       = (ChatPane_initial
            \<lparr>input := utf16 ''hi'', files := [\<lparr>name = utf16 ''a.png'', bytes = []\<rparr>],
             toasts := [Toast_error (utf16 ''Upload failed'')]\<rparr>, Returned)"
proof -
  have picked: "[\<lparr>name = utf16 ''a.png'', bytes = []\<rparr>] \<noteq> []" by simp
  have status: "\<not> ok 500" by (simp add: ok_def)
  show ?thesis
    using picked status
      upload_failure [OF picked status, of "ChatPane_initial\<lparr>input := utf16 ''hi''\<rparr>" "[]" None]
    by (simp add: ChatPane_initial_def)
qed

text \<open>
  A fetch that rejects is not caught by the handler: it ends with the exception, with the
  selection stored and no notice.
\<close>

lemma upload_rejected_uncaught:
  "picked \<noteq> [] \<Longrightarrow> onFilesChanged s picked Rejected = (s\<lparr>files := picked\<rparr>, Threw)"
  by (simp add: onFilesChanged_split onFilesChanged_settle_def)

section \<open>The relay\<close>

lemma POST_chat_requests:
  "fst (POST_chat body res)
     = [\<lparr>message = (case find (\<lambda>m. role m = User)
                                (rev (case req_messages body of None \<Rightarrow> [] | Some ms \<Rightarrow> ms)) of
                      None \<Rightarrow> [] | Some m \<Rightarrow> content m),
         strategy_id = req_strategyId body, wallet_ids = req_walletIds body\<rparr>]"
  by (simp add: POST_chat_def Let_def)

text \<open>The route never reads the field \<^verbatim>\<open>message\<close> of the body it receives.\<close>

lemma POST_chat_ignores_message:
  "POST_chat (body\<lparr>req_message := m\<rparr>) res = POST_chat body res"
  by (simp add: POST_chat_def)

text \<open>
  What reaches the backend for a submission: the pane posts the log it had before the
  submission, and the route takes the utterance from the last user message of that log,
  so the backend receives the text of the turn before, or the empty string.
\<close>

lemma relay_forwards_previous_turn:
  assumes "snd (sendMessage_begin s uuid) = Some body"
  shows "fst (POST_chat body res)
           = [\<lparr>message = (case find (\<lambda>m. role m = User) (rev (messages s)) of
                            None \<Rightarrow> [] | Some m \<Rightarrow> content m),
               strategy_id = strategyId s, wallet_ids = walletIds s\<rparr>]"
  using assms
  by (auto simp add: sendMessage_begin_def Let_def POST_chat_requests split: if_splits)

text \<open>
  C1. The pane submits \<open>Rebalance my portfolio\<close> with an empty log: the body it posts
  has an empty \<^verbatim>\<open>messages\<close> and the text in \<^verbatim>\<open>message\<close>; the route, given that body,
  sends the backend one request whose \<^verbatim>\<open>message\<close> is the empty string, not the
  submitted text.
\<close>

theorem relay_forwards_stale_utterance:
  "snd (sendMessage_begin (ChatPane_initial\<lparr>input := utf16 ''Rebalance my portfolio''\<rparr>)
          (utf16 ''u1''))
     = Some \<lparr>req_messages = Some [], req_strategyId = None, req_walletIds = None,
             req_message = Some (utf16 ''Rebalance my portfolio'')\<rparr>
   \<and> fst (POST_chat \<lparr>req_messages = Some [], req_strategyId = None, req_walletIds = None,
                     req_message = Some (utf16 ''Rebalance my portfolio'')\<rparr>
            (Resolved 200 [] (Some \<lparr>message_id = utf16 ''m1'', agent_response = utf16 ''ok''\<rparr>)))
     = [\<lparr>message = [], strategy_id = None, wallet_ids = None\<rparr>]
   \<and> fst (POST_chat \<lparr>req_messages = Some [], req_strategyId = None, req_walletIds = None,
                     req_message = Some (utf16 ''Rebalance my portfolio'')\<rparr>
            (Resolved 200 [] (Some \<lparr>message_id = utf16 ''m1'', agent_response = utf16 ''ok''\<rparr>)))
     \<noteq> [\<lparr>message = utf16 ''Rebalance my portfolio'', strategy_id = None, wallet_ids = None\<rparr>]"
proof -
  have trimmed: "trim (utf16 ''Rebalance my portfolio'') = utf16 ''Rebalance my portfolio''"
    by (simp add: trim_def utf16_def is_white_space_def)
  have nonempty: "utf16 ''Rebalance my portfolio'' \<noteq> []"
    by (simp add: utf16_def)
  show ?thesis
    using nonempty
    by (simp add: sendMessage_begin_def Let_def trimmed ChatPane_initial_def POST_chat_requests)
qed

lemma NextResponse_json_200: "NextResponse_json body 200 = Inr (NextResponse body 200)"
  by (simp add: NextResponse_json_def null_body_status_def)

text \<open>
  C7, as the specification states it, asks for the status of the backend and its body
  text as the error payload, for every status that is not ok. For a backend answer with
  status 500 and an empty body the payload of the route is the text
  \<open>Chat backend error\<close>, not the empty body. For a backend answer with status 304 the
  route builds no response at all: giving a body to that status throws.
\<close>

theorem relay_empty_error_body:
  "\<not> ok 500
   \<and> snd (POST_chat \<lparr>req_messages = Some [], req_strategyId = None, req_walletIds = None,
                     req_message = Some (utf16 ''hi'')\<rparr>
            (Resolved 500 [] None))
     = Inr (NextResponse (Error_payload (utf16 ''Chat backend error'')) 500)
   \<and> snd (POST_chat \<lparr>req_messages = Some [], req_strategyId = None, req_walletIds = None,
                     req_message = Some (utf16 ''hi'')\<rparr>
            (Resolved 500 [] None))
     \<noteq> Inr (NextResponse (Error_payload []) 500)
   \<and> \<not> ok 304
   \<and> snd (POST_chat \<lparr>req_messages = Some [], req_strategyId = None, req_walletIds = None,
                     req_message = Some (utf16 ''hi'')\<rparr>
            (Resolved 304 [] None))
     = Inl TypeError"
  by (simp add: POST_chat_def Let_def ok_def utf16_def NextResponse_json_def
        null_body_status_def)

text \<open>
  C7, amended. When the backend answers with a status that is not ok and that a response
  with a body can have (from 200 to 599 and not a null-body status), the route has sent
  exactly one request and answers with that same status; its error payload is the body
  text of the backend as it is when that text is not empty, and the text
  \<open>Chat backend error\<close> when it is empty.
\<close>

theorem relay_backend_error:
  assumes "\<not> ok st" and "200 \<le> st" and "st \<le> 599" and "\<not> null_body_status st"
  shows "length (fst (POST_chat body (Resolved st errorText js))) = 1
         \<and> snd (POST_chat body (Resolved st errorText js))
           = Inr (NextResponse
                   (Error_payload (if errorText = [] then utf16 ''Chat backend error''
                                   else errorText))
                   st)"
  using assms by (simp add: POST_chat_def Let_def NextResponse_json_def)

theorem relay_backend_error_witness:
  "\<not> ok 500 \<and> (200::nat) \<le> 500 \<and> (500::nat) \<le> 599 \<and> \<not> null_body_status 500
   \<and> length (fst (POST_chat \<lparr>req_messages = Some [], req_strategyId = None,
                             req_walletIds = None, req_message = Some (utf16 ''hi'')\<rparr>
                    (Resolved 500 (utf16 ''LLM timeout'') None))) = 1
   \<and> snd (POST_chat \<lparr>req_messages = Some [], req_strategyId = None, req_walletIds = None,
                     req_message = Some (utf16 ''hi'')\<rparr>
            (Resolved 500 (utf16 ''LLM timeout'') None))
     = Inr (NextResponse (Error_payload (utf16 ''LLM timeout'')) 500)"
proof -
  have status: "\<not> ok 500" by (simp add: ok_def)
  have lower: "(200::nat) \<le> 500" by simp
  have upper: "(500::nat) \<le> 599" by simp
  have bodied: "\<not> null_body_status 500" by (simp add: null_body_status_def)
  have body: "utf16 ''LLM timeout'' \<noteq> []" by (simp add: utf16_def)
  show ?thesis
    using status lower upper bodied body
      relay_backend_error [OF status lower upper bodied, of
        "\<lparr>req_messages = Some [], req_strategyId = None, req_walletIds = None,
          req_message = Some (utf16 ''hi'')\<rparr>" "utf16 ''LLM timeout''" None]
    by simp
qed

text \<open>
  For the other statuses that are not ok, the route has sent its one request as well and
  ends with the exception of the constructor.
\<close>

lemma relay_backend_error_unanswerable:
  assumes "\<not> ok st" and "st < 200 \<or> 599 < st \<or> null_body_status st"
  shows "length (fst (POST_chat body (Resolved st errorText js))) = 1
         \<and> snd (POST_chat body (Resolved st errorText js))
           = Inl (if st < 200 \<or> 599 < st then RangeError else TypeError)"
  using assms by (auto simp add: POST_chat_def Let_def NextResponse_json_def)

section \<open>The upload route and the input buffer\<close>

lemma upload_loop_all_written:
  assumes "\<forall>j<length fs. write_ok env (i + j)"
  shows "upload_loop env i fs urls
           = Inr (urls @ map (\<lambda>j. utf16 ''/uploads/'' @ safeName (now env (i + j)) (fs ! j))
                           [0..<length fs])"
  using assms
proof (induction fs arbitrary: i urls)
  case Nil
  show ?case by simp
next
  case (Cons f fs)
  have head: "write_ok env i"
    using Cons.prems by force
  have rest: "\<forall>j<length fs. write_ok env (Suc i + j)"
    using Cons.prems by force
  have "[0..<Suc (length fs)] = 0 # [Suc 0..<Suc (length fs)]"
    by (rule upt_conv_Cons) simp
  then have shift: "[0..<length (f # fs)] = 0 # map Suc [0..<length fs]"
    by (simp only: map_Suc_upt list.size(4)) simp
  show ?case
    by (simp only: shift upload_loop.simps Let_def head if_True Cons.IH [OF rest])
       (simp add: comp_def)
qed

lemma decimal_digits: "c \<in> set (decimal n) \<Longrightarrow> 48 \<le> c \<and> c \<le> 57"
proof (induction n arbitrary: c rule: decimal.induct)
  case (1 n)
  show ?case
  proof (cases "n < 10")
    case True
    then show ?thesis
      using "1.prems" by (simp add: decimal.simps [of n])
  next
    case False
    have "c \<in> set (decimal (n div 10)) \<or> c = 48 + n mod 10"
      using "1.prems" False by (auto simp add: decimal.simps [of n])
    then show ?thesis
    proof
      assume "c \<in> set (decimal (n div 10))"
      then show ?thesis using "1.IH" False by simp
    next
      assume "c = 48 + n mod 10"
      moreover have "n mod 10 < 10" by simp
      ultimately show ?thesis by linarith
    qed
  qed
qed

lemma sanitize_safe: "c \<in> set (sanitize nm) \<Longrightarrow> safe_char c"
  by (auto simp add: sanitize_def safe_char_def)

lemma attachment_line_one_line:
  "10 \<notin> set (attachment_line (utf16 ''/uploads/'' @ safeName t f))"
proof -
  have "10 \<notin> set (decimal t)"
    using decimal_digits [of 10 t] by auto
  moreover have "10 \<notin> set (sanitize (name f))"
    using sanitize_safe [of 10 "name f"] by (auto simp add: safe_char_def)
  ultimately show ?thesis
    by (simp add: attachment_line_def safeName_def utf16_def)
qed

lemma count_join:
  assumes "xs \<noteq> []" and "\<forall>x\<in>set xs. c \<notin> set x"
  shows "count_list (join [c] xs) c = length xs - 1"
  using assms
proof (induction xs rule: induct_list012)
  case 1
  then show ?case by simp
next
  case (2 x)
  then show ?case by simp
next
  case (3 x y ys)
  have "count_list (join [c] (y # ys)) c = length (y # ys) - 1"
    using "3.IH"(2) "3.prems" by simp
  moreover have "count_list x c = 0"
    using "3.prems" by simp
  ultimately show ?case by simp
qed

text \<open>
  C6. For a selection of \<open>N\<close> files for which the directory can be made and every write
  succeeds, the route answers with status 200 and a list of \<open>N\<close> URLs, the \<open>i\<close>-th
  being \<open>/uploads/\<close> followed by the stored name of the \<open>i\<close>-th file. Given that
  answer to a selection that is not empty, the pane appends to its input buffer the
  \<open>N\<close> lines \<open>Attachment: url\<close> joined by newlines, after the old content and an empty
  line when the buffer was not empty; the appended text has \<open>N - 1\<close> newlines, so it is
  exactly \<open>N\<close> lines. For an empty selection the pane posts nothing and changes nothing.
\<close>

theorem upload_success:
  assumes "mkdir_ok env" and "\<forall>i<length picked. write_ok env i"
  shows "\<exists>urls.
           POST_files env picked = Inr (NextResponse urls 200)
           \<and> length urls = length picked
           \<and> (\<forall>i<length picked.
                 urls ! i = utf16 ''/uploads/'' @ safeName (now env i) (picked ! i))
           \<and> (picked \<noteq> [] \<longrightarrow>
                 onFilesChanged s picked (Resolved 200 txt (Some urls))
                 = (s\<lparr>files := picked,
                      input := (if input s = [] then [] else input s @ newline @ newline)
                               @ join newline (map attachment_line urls),
                      toasts := toasts s @ [Toast_success (utf16 ''Files attached'')]\<rparr>,
                    Returned)
                 \<and> length (map attachment_line urls) = length picked
                 \<and> count_list (join newline (map attachment_line urls)) 10 = length picked - 1)
           \<and> (picked = [] \<longrightarrow>
                 onFilesChanged s picked (Resolved 200 txt (Some urls)) = (s, Returned))"
proof -
  define urls where
    "urls = map (\<lambda>j. utf16 ''/uploads/'' @ safeName (now env (0 + j)) (picked ! j))
              [0..<length picked]"
  have written: "\<forall>j<length picked. write_ok env (0 + j)"
    using assms(2) by simp
  have route: "POST_files env picked = Inr (NextResponse urls 200)"
    using assms(1) upload_loop_all_written [OF written, of "[]"]
    by (simp add: POST_files_def urls_def NextResponse_json_200)
  have len: "length urls = length picked"
    by (simp add: urls_def)
  have nth: "\<forall>i<length picked.
               urls ! i = utf16 ''/uploads/'' @ safeName (now env i) (picked ! i)"
    by (simp add: urls_def)
  have lines: "\<forall>x\<in>set (map attachment_line urls). 10 \<notin> set x"
    using attachment_line_one_line by (auto simp add: urls_def)
  have pane: "onFilesChanged s picked (Resolved 200 txt (Some urls))
             = (s\<lparr>files := picked,
                  input := (if input s = [] then [] else input s @ newline @ newline)
                           @ join newline (map attachment_line urls),
                  toasts := toasts s @ [Toast_success (utf16 ''Files attached'')]\<rparr>, Returned)"
    if "picked \<noteq> []"
  proof -
    have "urls \<noteq> []"
      using that len by auto
    then show ?thesis
      using that
      by (simp add: onFilesChanged_split onFilesChanged_settle_def ok_def Let_def)
  qed
  have count: "count_list (join newline (map attachment_line urls)) 10 = length picked - 1"
    if "picked \<noteq> []"
  proof -
    have "map attachment_line urls \<noteq> []"
      using that len by auto
    then have "count_list (join [10] (map attachment_line urls)) 10
                 = length (map attachment_line urls) - 1"
      using lines by (rule count_join)
    then show ?thesis
      by (simp add: newline_def len)
  qed
  show ?thesis
  proof (intro exI [of _ urls] conjI impI)
    show "POST_files env picked = Inr (NextResponse urls 200)"
      by (rule route)
    show "length urls = length picked"
      by (rule len)
    show "\<forall>i<length picked.
            urls ! i = utf16 ''/uploads/'' @ safeName (now env i) (picked ! i)"
      by (rule nth)
    show "length (map attachment_line urls) = length picked"
      by (simp add: len)
  next
    assume "picked \<noteq> []"
    then show "onFilesChanged s picked (Resolved 200 txt (Some urls))
             = (s\<lparr>files := picked,
                  input := (if input s = [] then [] else input s @ newline @ newline)
                           @ join newline (map attachment_line urls),
                  toasts := toasts s @ [Toast_success (utf16 ''Files attached'')]\<rparr>, Returned)"
      by (rule pane)
  next
    assume "picked \<noteq> []"
    then show "count_list (join newline (map attachment_line urls)) 10 = length picked - 1"
      by (rule count)
  next
    assume "picked = []"
    then show "onFilesChanged s picked (Resolved 200 txt (Some urls)) = (s, Returned)"
      by (simp add: onFilesChanged_split)
  qed
qed

theorem upload_success_witness:
  "[\<lparr>name = utf16 ''a.png'', bytes = []\<rparr>, \<lparr>name = utf16 ''b.png'', bytes = []\<rparr>] \<noteq> []
   \<and> mkdir_ok \<lparr>mkdir_ok = True, now = (\<lambda>i. 1670000000000), write_ok = (\<lambda>i. True)\<rparr>
   \<and> write_ok \<lparr>mkdir_ok = True, now = (\<lambda>i. 1670000000000), write_ok = (\<lambda>i. True)\<rparr> 0
   \<and> write_ok \<lparr>mkdir_ok = True, now = (\<lambda>i. 1670000000000), write_ok = (\<lambda>i. True)\<rparr> 1
   \<and> POST_files \<lparr>mkdir_ok = True, now = (\<lambda>i. 1670000000000), write_ok = (\<lambda>i. True)\<rparr>
        [\<lparr>name = utf16 ''a.png'', bytes = []\<rparr>, \<lparr>name = utf16 ''b.png'', bytes = []\<rparr>]
       = Inr (NextResponse [utf16 ''/uploads/1670000000000-a.png'',
                            utf16 ''/uploads/1670000000000-b.png''] 200)
   \<and> input (fst (onFilesChanged ChatPane_initial
                    [\<lparr>name = utf16 ''a.png'', bytes = []\<rparr>, \<lparr>name = utf16 ''b.png'', bytes = []\<rparr>]
                    (Resolved 200 []
                       (Some [utf16 ''/uploads/1670000000000-a.png'',
                              utf16 ''/uploads/1670000000000-b.png'']))))
       = utf16 ''Attachment: /uploads/1670000000000-a.png'' @ newline
         @ utf16 ''Attachment: /uploads/1670000000000-b.png''"
proof -
  have picked: "[\<lparr>name = utf16 ''a.png'', bytes = []\<rparr>, \<lparr>name = utf16 ''b.png'', bytes = []\<rparr>] \<noteq> []"
    by simp
  have dir: "mkdir_ok \<lparr>mkdir_ok = True, now = (\<lambda>i. 1670000000000), write_ok = (\<lambda>i. True)\<rparr>"
    by simp
  have writes:
    "\<forall>i<length [\<lparr>name = utf16 ''a.png'', bytes = []\<rparr>, \<lparr>name = utf16 ''b.png'', bytes = []\<rparr>].
       write_ok \<lparr>mkdir_ok = True, now = (\<lambda>i. 1670000000000), write_ok = (\<lambda>i. True)\<rparr> i"
    by simp
  have stamp: "decimal 1670000000000 = utf16 ''1670000000000''"
    by (simp add: decimal.simps utf16_def)
  have route:
    "POST_files \<lparr>mkdir_ok = True, now = (\<lambda>i. 1670000000000), write_ok = (\<lambda>i. True)\<rparr>
        [\<lparr>name = utf16 ''a.png'', bytes = []\<rparr>, \<lparr>name = utf16 ''b.png'', bytes = []\<rparr>]
       = Inr (NextResponse [utf16 ''/uploads/1670000000000-a.png'',
                            utf16 ''/uploads/1670000000000-b.png''] 200)"
    by (simp add: POST_files_def safeName_def stamp sanitize_def safe_char_def
          NextResponse_json_200)
       (simp add: utf16_def)
  have pane:
    "input (fst (onFilesChanged ChatPane_initial
                    [\<lparr>name = utf16 ''a.png'', bytes = []\<rparr>, \<lparr>name = utf16 ''b.png'', bytes = []\<rparr>]
                    (Resolved 200 []
                       (Some [utf16 ''/uploads/1670000000000-a.png'',
                              utf16 ''/uploads/1670000000000-b.png'']))))
       = utf16 ''Attachment: /uploads/1670000000000-a.png'' @ newline
         @ utf16 ''Attachment: /uploads/1670000000000-b.png''"
    by (simp add: onFilesChanged_split onFilesChanged_settle_def ok_def Let_def
          ChatPane_initial_def attachment_line_def)
       (simp add: utf16_def)
  have first: "write_ok \<lparr>mkdir_ok = True, now = (\<lambda>i. 1670000000000), write_ok = (\<lambda>i. True)\<rparr> 0"
    by simp
  have second: "write_ok \<lparr>mkdir_ok = True, now = (\<lambda>i. 1670000000000), write_ok = (\<lambda>i. True)\<rparr> 1"
    by simp
  show ?thesis
    using picked dir first second route pane
      upload_success [OF dir writes, of ChatPane_initial "[]"]
    by (intro conjI) assumption+
qed

section \<open>The query of the history loader\<close>

text \<open>Text made of ASCII letters, digits and \<^verbatim>\<open>* - . _\<close> is serialised as it is.\<close>

lemma code_points_ascii: "\<forall>c\<in>set v. c < 0x80 \<Longrightarrow> code_points v = v"
  by (induction v rule: code_points.induct) auto

lemma form_encode_plain:
  assumes "\<forall>c\<in>set v. (48 \<le> c \<and> c \<le> 57) \<or> c = 45"
  shows "form_encode v = v"
proof -
  have "\<forall>c\<in>set v. c < 0x80"
    using assms by auto
  then have points: "code_points v = v"
    by (rule code_points_ascii)
  have bytes: "concat (map utf8 v) = v"
    using assms by (induction v) (auto simp add: utf8_def)
  have "concat (map form_byte v) = v"
    using assms by (induction v) (auto simp add: form_byte_def)
  then show ?thesis
    by (simp add: form_encode_def points bytes)
qed

lemma form_encode_String_int: "form_encode (String_int n) = String_int n"
proof (rule form_encode_plain)
  show "\<forall>c\<in>set (String_int n). (48 \<le> c \<and> c \<le> 57) \<or> c = 45"
    using decimal_digits by (auto simp add: String_int_def utf16_def)
qed

lemma form_encode_limit: "form_encode (utf16 ''limit'') = utf16 ''limit''"
  by (simp add: form_encode_def utf16_def utf8_def form_byte_def)

lemma form_encode_strategy_id: "form_encode (utf16 ''strategy_id'') = utf16 ''strategy_id''"
  by (simp add: form_encode_def utf16_def utf8_def form_byte_def)

lemma String_int_50: "String_int 50 = utf16 ''50''"
  by (simp add: String_int_def decimal.simps utf16_def)

text \<open>
  C9. When no strategy is given, the parameters are the single pair \<open>limit\<close>, so no
  parameter is named \<open>strategy_id\<close>, and the path asked for is
  \<open>/api/chat/history?limit=\<close> followed by the limit in decimal. When no limit is given,
  the parameter \<open>limit\<close> has the value \<open>50\<close> whatever the strategy, and the query ends
  in \<open>limit=50\<close>; with neither, the URL fetched is \<^verbatim>\<open>BACKEND_URL\<close> followed by
  \<open>/api/chat/history?limit=50\<close>.
\<close>

theorem loadChatHistory_query:
  "loadChatHistory_params None limit_arg
     = [(utf16 ''limit'', String_int (case limit_arg of None \<Rightarrow> 50 | Some l \<Rightarrow> l))]
   \<and> utf16 ''strategy_id'' \<notin> fst ` set (loadChatHistory_params None limit_arg)
   \<and> loadChatHistory_path None limit_arg
     = utf16 ''/api/chat/history?limit=''
       @ String_int (case limit_arg of None \<Rightarrow> 50 | Some l \<Rightarrow> l)
   \<and> map_of (loadChatHistory_params strategyId_arg None) (utf16 ''limit'') = Some (utf16 ''50'')
   \<and> loadChatHistory_path strategyId_arg None
     = utf16 ''/api/chat/history?''
       @ (case strategyId_arg of
            None \<Rightarrow> []
          | Some sid \<Rightarrow> if sid = [] then []
                        else utf16 ''strategy_id='' @ form_encode sid @ utf16 ''&'')
       @ utf16 ''limit=50''
   \<and> loadChatHistory_path None None = utf16 ''/api/chat/history?limit=50''
   \<and> fst (loadChatHistory BACKEND_URL None None res)
     = BACKEND_URL @ utf16 ''/api/chat/history?limit=50''"
proof -
  have names: "utf16 ''strategy_id'' \<noteq> utf16 ''limit''"
    by (simp add: utf16_def)
  have params: "loadChatHistory_params None la
     = [(utf16 ''limit'', String_int (case la of None \<Rightarrow> 50 | Some l \<Rightarrow> l))]" for la
    by (simp add: loadChatHistory_params_def)
  have absent: "utf16 ''strategy_id'' \<notin> fst ` set (loadChatHistory_params None limit_arg)"
    using names by (simp add: params)
  have path: "loadChatHistory_path None la
     = utf16 ''/api/chat/history?limit=''
       @ String_int (case la of None \<Rightarrow> 50 | Some l \<Rightarrow> l)" for la
    by (simp add: loadChatHistory_path_def params params_toString_def form_encode_limit
          form_encode_String_int)
       (simp add: utf16_def)
  have default: "map_of (loadChatHistory_params strategyId_arg None) (utf16 ''limit'')
                   = Some (utf16 ''50'')"
    using names
    by (cases strategyId_arg) (simp_all add: loadChatHistory_params_def String_int_50)
  have default_path: "loadChatHistory_path strategyId_arg None
     = utf16 ''/api/chat/history?''
       @ (case strategyId_arg of
            None \<Rightarrow> []
          | Some sid \<Rightarrow> if sid = [] then []
                        else utf16 ''strategy_id='' @ form_encode sid @ utf16 ''&'')
       @ utf16 ''limit=50''"
  proof (cases strategyId_arg)
    case None
    then show ?thesis
      using path [of None] by (simp add: String_int_50 utf16_def)
  next
    case (Some sid)
    have "loadChatHistory_params (Some sid) None
            = (if sid = [] then [(utf16 ''limit'', utf16 ''50'')]
               else [(utf16 ''strategy_id'', sid), (utf16 ''limit'', utf16 ''50'')])"
      using names by (simp add: loadChatHistory_params_def String_int_50)
    moreover have "form_encode (utf16 ''50'') = utf16 ''50''"
      using form_encode_String_int [of 50] by (simp add: String_int_50)
    ultimately show ?thesis
      using Some
      by (simp add: loadChatHistory_path_def params_toString_def form_encode_limit
            form_encode_strategy_id)
         (simp add: utf16_def)
  qed
  have both: "loadChatHistory_path None None = utf16 ''/api/chat/history?limit=50''"
    using path [of None] by (simp add: String_int_50 utf16_def)
  have url: "fst (loadChatHistory BACKEND_URL None None res)
               = BACKEND_URL @ utf16 ''/api/chat/history?limit=50''"
    by (simp add: loadChatHistory_def backend_def both)
  show ?thesis
    using params [of limit_arg] absent path [of limit_arg] default default_path both url
    by (intro conjI) assumption+
qed

end
